theory Spec2Isabelle
  imports Complex_Main
begin

section \<open>Python values\<close>

text \<open>
  The program is a Streamlit script (\<^verbatim>\<open>sasanalyticstoolsexplorerv1.py\<close>): constant
  dictionaries, a five-way dispatch in \<^verbatim>\<open>main\<close> and five renderers that write to the page.
  A Python \<^verbatim>\<open>str\<close> is modelled by the bytes of its UTF-8 encoding: concatenation, equality
  and emptiness of strings agree with those of their encodings. The non-ASCII glyphs of the
  source are the constants below, named after their code points.
\<close>

datatype py_error = KeyError | ValueError | TypeError

definition glyph_magnifier :: string where \<comment> \<open>U+1F50D\<close>
  "glyph_magnifier = [CHR 0xF0, CHR 0x9F, CHR 0x94, CHR 0x8D]"

definition glyph_bar_chart :: string where \<comment> \<open>U+1F4CA\<close>
  "glyph_bar_chart = [CHR 0xF0, CHR 0x9F, CHR 0x93, CHR 0x8A]"

definition glyph_direct_hit :: string where \<comment> \<open>U+1F3AF\<close>
  "glyph_direct_hit = [CHR 0xF0, CHR 0x9F, CHR 0x8E, CHR 0xAF]"

definition glyph_robot :: string where \<comment> \<open>U+1F916\<close>
  "glyph_robot = [CHR 0xF0, CHR 0x9F, CHR 0xA4, CHR 0x96]"

definition glyph_cloud :: string where \<comment> \<open>U+2601 U+FE0F\<close>
  "glyph_cloud = [CHR 0xE2, CHR 0x98, CHR 0x81, CHR 0xEF, CHR 0xB8, CHR 0x8F]"

definition glyph_arrows :: string where \<comment> \<open>U+1F504\<close>
  "glyph_arrows = [CHR 0xF0, CHR 0x9F, CHR 0x94, CHR 0x84]"

definition glyph_briefcase :: string where \<comment> \<open>U+1F4BC\<close>
  "glyph_briefcase = [CHR 0xF0, CHR 0x9F, CHR 0x92, CHR 0xBC]"

definition glyph_warning :: string where \<comment> \<open>U+26A0 U+FE0F\<close>
  "glyph_warning = [CHR 0xE2, CHR 0x9A, CHR 0xA0, CHR 0xEF, CHR 0xB8, CHR 0x8F]"

definition glyph_globe :: string where \<comment> \<open>U+1F30D\<close>
  "glyph_globe = [CHR 0xF0, CHR 0x9F, CHR 0x8C, CHR 0x8D]"

definition glyph_phone :: string where \<comment> \<open>U+1F4F1\<close>
  "glyph_phone = [CHR 0xF0, CHR 0x9F, CHR 0x93, CHR 0xB1]"

definition glyph_hospital :: string where \<comment> \<open>U+1F3E5\<close>
  "glyph_hospital = [CHR 0xF0, CHR 0x9F, CHR 0x8F, CHR 0xA5]"

definition glyph_bullet :: string where \<comment> \<open>U+2022\<close>
  "glyph_bullet = [CHR 0xE2, CHR 0x80, CHR 0xA2]"

definition glyph_pushpin :: string where \<comment> \<open>U+1F4CC\<close>
  "glyph_pushpin = [CHR 0xF0, CHR 0x9F, CHR 0x93, CHR 0x8C]"

text \<open>
  A dictionary literal keeps its insertion order, which the program shows (the options of a
  select box, the columns of a table), so a \<^verbatim>\<open>dict\<close> is an association list: \<open>keys\<close> are its
  first components in order, subscription is \<open>getitem\<close> and raises \<^verbatim>\<open>KeyError\<close> on a missing
  key.
\<close>

definition keys :: "('k \<times> 'v) list \<Rightarrow> 'k list" where
  "keys d = map fst d"

definition dict_values :: "('k \<times> 'v) list \<Rightarrow> 'v list" where
  "dict_values d = map snd d"

definition getitem :: "('k \<times> 'v) list \<Rightarrow> 'k \<Rightarrow> py_error + 'v" where
  "getitem d k = (case map_of d k of None \<Rightarrow> Inl KeyError | Some v \<Rightarrow> Inr v)"

section \<open>Calendar dates and data frames (pandas)\<close>

record date =
  year :: nat
  month :: nat
  day :: nat

text \<open>A cell of a data frame: Python's values are dynamically typed.\<close>

datatype cell = B bool | I int | F real | NaN | S string | D date

fun truthy :: "cell \<Rightarrow> bool" where
  "truthy (B b) = b"
| "truthy (I i) = (i \<noteq> 0)"
| "truthy (F x) = (x \<noteq> 0)"
| "truthy NaN = True"
| "truthy (S s) = (s \<noteq> [])"
| "truthy (D d) = True"

record dataframe =
  columns :: "(string \<times> cell list) list"
  index :: "cell list"

text \<open>
  \<^verbatim>\<open>pd.DataFrame(data, index=...)\<close> on a dictionary of equally long sequences: one column
  per key, in order. With no index the rows are numbered from 0; with one, every column
  must be as long as the index. Sequences of different lengths raise \<^verbatim>\<open>ValueError\<close>.
\<close>

definition pd_DataFrame :: "(string \<times> cell list) list \<Rightarrow> cell list option \<Rightarrow> py_error + dataframe" where
  "pd_DataFrame data idx =
     (case idx of
        Some labels \<Rightarrow>
          if list_all (\<lambda>kc. length (snd kc) = length labels) data
          then Inr \<lparr>columns = data, index = labels\<rparr>
          else Inl ValueError
      | None \<Rightarrow>
          (case data of
             [] \<Rightarrow> Inr \<lparr>columns = [], index = []\<rparr>
           | kc # rest \<Rightarrow>
               if list_all (\<lambda>kc'. length (snd kc') = length (snd kc)) rest
               then Inr \<lparr>columns = data, index = map (\<lambda>i. I (int i)) [0..<length (snd kc)]\<rparr>
               else Inl ValueError))"

section \<open>The constant tables\<close>

record tool =
  description :: string
  key_features :: "string list"
  use_cases :: "string list"

definition sas_tools :: "(string \<times> tool) list" where
  "sas_tools =
    [(''SAS Base'',
      \<lparr>description = ''The core module of SAS, providing extensive data manipulation techniques and sophisticated statistical algorithms.'',
       key_features = [''Data Management'', ''Statistical Analysis'', ''Report Writing'', ''Programming Interface''],
       use_cases = [''Data Cleaning'', ''Basic Statistics'', ''Custom Reports'', ''Data Transformation'']\<rparr>),
     (''SAS Enterprise Guide'',
      \<lparr>description = ''A user-friendly, point-and-click Windows client interface for quick access to SAS analytics.'',
       key_features = [''Visual Interface'', ''Workflow Designer'', ''Built-in Tasks'', ''Project Organization''],
       use_cases = [''Business Reports'', ''Statistical Analysis'', ''Data Exploration'', ''Process Automation'']\<rparr>),
     (''SAS Visual Analytics'',
      \<lparr>description = ''A visual analytics software for creating interactive dashboards, reports, and data visualizations.'',
       key_features = [''Interactive Dashboards'', ''Mobile Support'', ''Data Discovery'', ''Smart Visualizations''],
       use_cases = [''Executive Dashboards'', ''Self-service Analytics'', ''Performance Monitoring'', ''Data Storytelling'']\<rparr>),
     (''SAS Viya'',
      \<lparr>description = ''A cloud-based platform for artificial intelligence, machine learning, analytics, and data management.'',
       key_features = [''Cloud Native'', ''Open Source Integration'', ''Scalable Processing'', ''Modern Architecture''],
       use_cases = [''Enterprise AI'', ''Cloud Analytics'', ''Real-time Decisions'', ''Distributed Computing'']\<rparr>)]"

text \<open>The two literals of \<^verbatim>\<open>show_features_comparison\<close>.\<close>

definition features :: "string list" where
  "features = [''Statistical Analysis'', ''Data Visualization'', ''Machine Learning'',
               ''Cloud Support'', ''Open Source Integration'']"

definition comparison_data :: "(string \<times> bool list) list" where
  "comparison_data =
    [(''SAS Base'', [True, False, False, False, False]),
     (''SAS Enterprise Guide'', [True, True, False, False, False]),
     (''SAS Visual Analytics'', [True, True, False, True, True]),
     (''SAS Viya'', [True, True, True, True, True])]"

section \<open>The page: what a renderer writes\<close>

text \<open>
  Streamlit calls append elements to the page. A renderer is modelled by the list of elements
  it appends, in order, each with the container it goes to (\<^verbatim>\<open>st.sidebar\<close>, a column
  entered by \<^verbatim>\<open>with col:\<close>, an expander). A raised exception is \<open>Inl\<close>.
\<close>

datatype container = Main_area | Sidebar | In_column nat | In_expander string

datatype chart_kind = Bar_chart | Line_chart

record figure =
  kind :: chart_kind
  frame :: dataframe
  x_column :: string
  y_column :: string
  fig_title :: string
  axis_labels :: "(string \<times> string) list"
  color_column :: "string option"

record styler =
  styled :: dataframe
  css :: "(string \<times> string list) list"

text \<open>A replacement field of an f-string keeps its value and its format specification.\<close>

datatype fpart = Lit string | Fmt cell string

datatype element =
    Title string
  | Markdown string
  | Header string
  | Subheader string
  | Write string
  | Radio string "string list"
  | Selectbox string "string list"
  | Columns "nat list"
  | Expander string
  | Dataframe styler
  | Plotly_chart figure
  | Metric string "fpart list"

type_synonym event = "container \<times> element"

definition and_then :: "py_error + 'a \<Rightarrow> ('a \<Rightarrow> py_error + 'b) \<Rightarrow> py_error + 'b" where
  "and_then m f = (case m of Inl e \<Rightarrow> Inl e | Inr v \<Rightarrow> f v)"

text \<open>
  \<^verbatim>\<open>px.bar\<close> and \<^verbatim>\<open>px.line\<close>: the named columns must be columns of the frame, otherwise
  \<^verbatim>\<open>ValueError\<close>.
\<close>

definition px_figure ::
  "chart_kind \<Rightarrow> dataframe \<Rightarrow> string \<Rightarrow> string \<Rightarrow> string \<Rightarrow> (string \<times> string) list \<Rightarrow> string option
     \<Rightarrow> py_error + figure" where
  "px_figure k df x y t labels color =
     (if x \<in> set (keys (columns df)) \<and> y \<in> set (keys (columns df)) \<and>
         (case color of None \<Rightarrow> True | Some c \<Rightarrow> c \<in> set (keys (columns df)))
      then Inr \<lparr>kind = k, frame = df, x_column = x, y_column = y, fig_title = t,
                axis_labels = labels, color_column = color\<rparr>
      else Inl ValueError)"

definition style_applymap :: "(cell \<Rightarrow> string) \<Rightarrow> dataframe \<Rightarrow> styler" where
  "style_applymap f df = \<lparr>styled = df, css = map (\<lambda>kc. (fst kc, map f (snd kc))) (columns df)\<rparr>"

subsection \<open>\<^verbatim>\<open>show_overview\<close>\<close>

definition newline :: string where
  "newline = [CHR 0x0A]"

definition benefits :: "string list" where
  "benefits =
    [glyph_bar_chart @ '' Comprehensive Statistical Analysis'',
     glyph_direct_hit @ '' Advanced Data Visualization'',
     glyph_robot @ '' Integrated Machine Learning'',
     glyph_cloud @ '' Cloud-Based Deployment'',
     glyph_arrows @ '' Open Source Interoperability'']"

definition overview_industries :: "string list" where
  "overview_industries =
    [glyph_briefcase @ '' Business Intelligence'',
     glyph_warning @ '' Risk Management'',
     glyph_globe @ '' Environmental Analytics'',
     glyph_phone @ '' Social Media Analytics'',
     glyph_hospital @ '' Healthcare Analytics'']"

definition show_overview :: "event list" where
  "show_overview =
    [(Main_area, Header ''SAS Data Analytics Platform Overview''),
     (Main_area, Write (newline
        @ ''    SAS (Statistical Analysis System) is a comprehensive data analytics platform that provides''
        @ newline
        @ ''    a wide range of tools for data management, statistical analysis, and business intelligence.''
        @ newline @ ''    '')),
     (Main_area, Columns [1, 1]),
     (In_column 0, Subheader ''Key Benefits'')]
    @ map (\<lambda>benefit. (In_column 0, Write benefit)) benefits
    @ [(In_column 1, Subheader ''Industry Applications'')]
    @ map (\<lambda>industry. (In_column 1, Write industry)) overview_industries"

subsection \<open>\<^verbatim>\<open>show_tool_explorer\<close>\<close>

text \<open>
  \<open>selected_tool\<close> is what \<^verbatim>\<open>st.selectbox\<close> returned: an option, or \<^verbatim>\<open>None\<close>. The test
  \<^verbatim>\<open>if selected_tool:\<close> fails on \<^verbatim>\<open>None\<close> and on the empty string.
\<close>

definition show_tool_explorer :: "string option \<Rightarrow> py_error + event list" where
  "show_tool_explorer selected_tool =
     (let top = [(Main_area, Header ''SAS Tools Explorer''),
                 (Main_area, Selectbox ''Select a SAS tool to explore:'' (keys sas_tools))]
      in case selected_tool of
           None \<Rightarrow> Inr top
         | Some name \<Rightarrow>
             if name = [] then Inr top
             else and_then (getitem sas_tools name) (\<lambda>tool_info.
               Inr (top
                 @ [(Main_area, Columns [2, 1]),
                    (In_column 0, Subheader (''About '' @ name)),
                    (In_column 0, Write (description tool_info)),
                    (In_column 0, Subheader ''Key Features'')]
                 @ map (\<lambda>feature. (In_column 0, Write (glyph_bullet @ '' '' @ feature)))
                     (key_features tool_info)
                 @ [(In_column 1, Subheader ''Common Use Cases'')]
                 @ map (\<lambda>use_case. (In_column 1, Write (glyph_pushpin @ '' '' @ use_case)))
                     (use_cases tool_info))))"

subsection \<open>\<^verbatim>\<open>show_features_comparison\<close>\<close>

definition show_features_comparison :: "py_error + event list" where
  "show_features_comparison =
     and_then (pd_DataFrame (map (\<lambda>kc. (fst kc, map B (snd kc))) comparison_data)
                 (Some (map S features)))
       (\<lambda>df_comparison.
          Inr [(Main_area, Header ''Features Comparison''),
               (Main_area, Dataframe (style_applymap
                  (\<lambda>x. if truthy x then ''background-color: #90EE90''
                        else ''background-color: #FFB6C1'') df_comparison))])"

subsection \<open>\<^verbatim>\<open>show_industry_applications\<close>\<close>

record industry =
  icon :: string
  applications :: "string list"
  popularity :: int

definition industries :: "(string \<times> industry) list" where
  "industries =
    [(''Business Intelligence'',
      \<lparr>icon = glyph_briefcase,
       applications = [''Data Warehousing'', ''ETL Processes'', ''Reporting'', ''Analytics''],
       popularity = 85\<rparr>),
     (''Risk Management'',
      \<lparr>icon = glyph_warning,
       applications = [''Credit Risk'', ''Market Risk'', ''Operational Risk'', ''Compliance''],
       popularity = 75\<rparr>),
     (''Environmental Analytics'',
      \<lparr>icon = glyph_globe,
       applications = [''Deforestation Monitoring'', ''Climate Analysis'', ''Resource Management''],
       popularity = 60\<rparr>),
     (''Social Media Analytics'',
      \<lparr>icon = glyph_phone,
       applications = [''Sentiment Analysis'', ''Trend Monitoring'', ''Engagement Tracking''],
       popularity = 70\<rparr>)]"

definition expander_label :: "string \<times> industry \<Rightarrow> string" where
  "expander_label item = icon (snd item) @ '' '' @ fst item"

definition show_details :: "string \<times> industry \<Rightarrow> event list" where
  "show_details item =
     [(Main_area, Expander (expander_label item)),
      (In_expander (expander_label item), Write ''Common Applications:'')]
     @ map (\<lambda>app. (In_expander (expander_label item), Write (glyph_bullet @ '' '' @ app)))
         (applications (snd item))"

definition show_industry_applications :: "py_error + event list" where
  "show_industry_applications =
     and_then (pd_DataFrame
                 [(''Industry'', map S (keys industries)),
                  (''Popularity'', map (\<lambda>ind. I (popularity ind)) (dict_values industries))]
                 None)
       (\<lambda>industry_data.
     and_then (px_figure Bar_chart industry_data ''Industry'' ''Popularity''
                 ''Industry Adoption of SAS Analytics''
                 [(''Popularity'', ''Adoption Rate (%)'')] (Some ''Industry''))
       (\<lambda>fig.
          Inr ([(Main_area, Header ''Industry Applications''),
                (Main_area, Plotly_chart fig)]
               @ concat (map show_details industries))))"

subsection \<open>\<^verbatim>\<open>show_demo_analytics\<close>\<close>

text \<open>
  \<^verbatim>\<open>pd.date_range(start, end, freq="M")\<close>: the month-end dates from \<open>start\<close> to \<open>stop\<close>,
  both included. Months are counted from year 0, twelve to a year.
\<close>

definition leap_year :: "nat \<Rightarrow> bool" where
  "leap_year y = (if y mod 400 = 0 then True else if y mod 100 = 0 then False else y mod 4 = 0)"

definition days_in_month :: "nat \<Rightarrow> nat \<Rightarrow> nat" where
  "days_in_month y m =
     (if m = 2 then (if leap_year y then 29 else 28)
      else if m = 4 \<or> m = 6 \<or> m = 9 \<or> m = 11 then 30
      else 31)"

definition date_le :: "date \<Rightarrow> date \<Rightarrow> bool" where
  "date_le a b =
     (year a < year b \<or>
      (year a = year b \<and> (month a < month b \<or> (month a = month b \<and> day a \<le> day b))))"

definition month_end :: "nat \<Rightarrow> date" where
  "month_end k =
     \<lparr>year = k div 12, month = k mod 12 + 1, day = days_in_month (k div 12) (k mod 12 + 1)\<rparr>"

definition date_range_M :: "date \<Rightarrow> date \<Rightarrow> date list" where
  "date_range_M start stop =
     filter (\<lambda>d. date_le start d \<and> date_le d stop)
       (map month_end [year start * 12 + month start - 1 ..< year stop * 12 + month stop])"

text \<open>
  The random generator of numpy. Its state has any type \<open>'g\<close>; a sampler takes one variate
  and leaves the next state. \<^verbatim>\<open>np.random.normal(loc, scale, size)\<close> is \<open>size\<close> standard
  normal variates, each scaled and shifted; \<^verbatim>\<open>np.random.uniform(low, high, size)\<close> is
  \<open>size\<close> variates of the unit interval (1 excluded), each stretched and shifted. Doubles
  are idealised as reals: numpy rounds each product and sum, so a value computed here is the
  exact one, not the double, and \<open>low + (high - low) * u\<close> for \<open>u\<close> just below 1 may round
  to \<open>high\<close> itself. The model therefore carries how many values are drawn, in which order
  and from which state, and no bound or law of the values. What a generator's variates are
  is not the program's business: the generator is a parameter of every renderer that draws.
\<close>

type_synonym 'g sampler = "'g \<Rightarrow> real \<times> 'g"

record 'g np_random =
  standard_normal :: "'g sampler"
  random_sample :: "'g sampler"

fun draws :: "'g sampler \<Rightarrow> nat \<Rightarrow> 'g \<Rightarrow> real list \<times> 'g" where
  "draws s 0 g = ([], g)"
| "draws s (Suc n) g = (case s g of (v, g') \<Rightarrow> (case draws s n g' of (vs, g'') \<Rightarrow> (v # vs, g'')))"

definition normal :: "'g np_random \<Rightarrow> real \<Rightarrow> real \<Rightarrow> nat \<Rightarrow> 'g \<Rightarrow> real list \<times> 'g" where
  "normal R loc scale count g =
     (case draws (standard_normal R) count g of (zs, g') \<Rightarrow> (map (\<lambda>z. loc + scale * z) zs, g'))"

definition uniform :: "'g np_random \<Rightarrow> real \<Rightarrow> real \<Rightarrow> nat \<Rightarrow> 'g \<Rightarrow> real list \<times> 'g" where
  "uniform R low high count g =
     (case draws (random_sample R) count g of (us, g') \<Rightarrow> (map (\<lambda>u. low + (high - low) * u) us, g'))"

text \<open>
  \<^verbatim>\<open>Series.sum()\<close> and \<^verbatim>\<open>Series.mean()\<close> skip missing values; the mean of nothing is
  \<^verbatim>\<open>nan\<close>. Strings and dates are not numbers.
\<close>

fun numeric :: "cell \<Rightarrow> bool" where
  "numeric (S s) = False"
| "numeric (D d) = False"
| "numeric c = True"

fun num_values :: "cell list \<Rightarrow> real list" where
  "num_values [] = []"
| "num_values (B b # cs) = (if b then 1 else 0) # num_values cs"
| "num_values (I i # cs) = real_of_int i # num_values cs"
| "num_values (F x # cs) = x # num_values cs"
| "num_values (c # cs) = num_values cs"

definition series_sum :: "cell list \<Rightarrow> py_error + cell" where
  "series_sum col = (if list_all numeric col then Inr (F (sum_list (num_values col))) else Inl TypeError)"

definition series_mean :: "cell list \<Rightarrow> py_error + cell" where
  "series_mean col =
     (if list_all numeric col
      then Inr (if num_values col = [] then NaN
                else F (sum_list (num_values col) / real (length (num_values col))))
      else Inl TypeError)"

text \<open>Lines 186 to 192 of the source: the dates and the three series, drawn in this order.\<close>

definition sample_data :: "'g np_random \<Rightarrow> 'g \<Rightarrow> py_error + (dataframe \<times> 'g)" where
  "sample_data R g =
     (let dates = date_range_M \<lparr>year = 2024, month = 1, day = 1\<rparr> \<lparr>year = 2024, month = 12, day = 31\<rparr>
      in case normal R 1000 200 (length dates) g of (sales, g1) \<Rightarrow>
         case normal R 500 100 (length dates) g1 of (customers, g2) \<Rightarrow>
         case uniform R 3.5 5 (length dates) g2 of (satisfaction, g3) \<Rightarrow>
           and_then (pd_DataFrame
                       [(''Date'', map D dates),
                        (''Sales'', map F sales),
                        (''Customers'', map F customers),
                        (''Satisfaction'', map F satisfaction)]
                       None)
             (\<lambda>data. Inr (data, g3)))"

definition metric_options :: "string list" where
  "metric_options = [''Sales'', ''Customers'', ''Satisfaction'']"

definition show_demo_analytics :: "'g np_random \<Rightarrow> string \<Rightarrow> 'g \<Rightarrow> py_error + (event list \<times> 'g)" where
  "show_demo_analytics R metric_choice g =
     and_then (sample_data R g) (\<lambda>(data, g').
     and_then (px_figure Line_chart data ''Date'' metric_choice
                 (metric_choice @ '' Trend Analysis'') [] None) (\<lambda>fig.
     and_then (and_then (getitem (columns data) ''Sales'') series_mean) (\<lambda>average_sales.
     and_then (and_then (getitem (columns data) ''Customers'') series_sum) (\<lambda>total_customers.
     and_then (and_then (getitem (columns data) ''Satisfaction'') series_mean) (\<lambda>avg_satisfaction.
       Inr ([(Main_area, Header ''Demo Analytics Dashboard''),
             (Main_area, Selectbox ''Select metric to visualize:'' metric_options),
             (Main_area, Plotly_chart fig),
             (Main_area, Subheader ''Summary Statistics''),
             (Main_area, Columns [1, 1, 1]),
             (In_column 0, Metric ''Average Sales'' [Lit ''$'', Fmt average_sales '',.0f'']),
             (In_column 1, Metric ''Total Customers'' [Fmt total_customers '',.0f'']),
             (In_column 2, Metric ''Avg Satisfaction'' [Fmt avg_satisfaction ''.1f'', Lit ''/5.0''])],
            g'))))))"

subsection \<open>\<^verbatim>\<open>main\<close>\<close>

text \<open>
  What the user chose in the three controls is the input of a display cycle. A run records,
  besides the page, which renderers \<^verbatim>\<open>main\<close> called, in order.
\<close>

record ui_input =
  page :: string
  selected_tool :: "string option"
  metric_choice :: string

datatype renderer =
    Show_overview
  | Show_tool_explorer
  | Show_features_comparison
  | Show_industry_applications
  | Show_demo_analytics

record 'g run =
  calls :: "renderer list"
  events :: "event list"
  rng_state :: 'g

definition nav_options :: "string list" where
  "nav_options = [''Overview'', ''Tool Explorer'', ''Features Comparison'',
                  ''Industry Applications'', ''Demo Analytics'']"

definition navigation :: "event list" where
  "navigation =
    [(Main_area, Title (glyph_magnifier @ '' SAS Analytics Tools Explorer'')),
     (Main_area, Markdown ''---''),
     (Sidebar, Title ''Navigation''),
     (Sidebar, Radio ''Choose a section:'' nav_options)]"

definition main :: "'g np_random \<Rightarrow> ui_input \<Rightarrow> 'g \<Rightarrow> py_error + 'g run" where
  "main R inp g =
     (if page inp = ''Overview'' then
        Inr \<lparr>calls = [Show_overview], events = navigation @ show_overview, rng_state = g\<rparr>
      else if page inp = ''Tool Explorer'' then
        and_then (show_tool_explorer (selected_tool inp)) (\<lambda>evs.
          Inr \<lparr>calls = [Show_tool_explorer], events = navigation @ evs, rng_state = g\<rparr>)
      else if page inp = ''Features Comparison'' then
        and_then show_features_comparison (\<lambda>evs.
          Inr \<lparr>calls = [Show_features_comparison], events = navigation @ evs, rng_state = g\<rparr>)
      else if page inp = ''Industry Applications'' then
        and_then show_industry_applications (\<lambda>evs.
          Inr \<lparr>calls = [Show_industry_applications], events = navigation @ evs, rng_state = g\<rparr>)
      else if page inp = ''Demo Analytics'' then
        and_then (show_demo_analytics R (metric_choice inp) g) (\<lambda>(evs, g').
          Inr \<lparr>calls = [Show_demo_analytics], events = navigation @ evs, rng_state = g'\<rparr>)
      else
        Inr \<lparr>calls = [], events = navigation, rng_state = g\<rparr>)"

section \<open>Reading a page\<close>

text \<open>What a reader sees under a subheading: the texts written after it, up to the next element
  that is not a text.\<close>

fun leading_writes :: "event list \<Rightarrow> string list" where
  "leading_writes ((c, Write s) # evs) = s # leading_writes evs"
| "leading_writes evs = []"

fun under :: "string \<Rightarrow> event list \<Rightarrow> string list" where
  "under h [] = []"
| "under h ((c, Subheader t) # evs) = (if t = h then leading_writes evs else under h evs)"
| "under h (ev # evs) = under h evs"

fun written :: "event \<Rightarrow> string list" where
  "written (c, Write s) = [s]"
| "written ev = []"

definition all_writes :: "event list \<Rightarrow> string list" where
  "all_writes evs = concat (map written evs)"

fun charted :: "event \<Rightarrow> figure list" where
  "charted (c, Plotly_chart fig) = [fig]"
| "charted ev = []"

definition charts :: "event list \<Rightarrow> figure list" where
  "charts evs = concat (map charted evs)"

fun measured :: "event \<Rightarrow> (string \<times> fpart list) list" where
  "measured (c, Metric label v) = [(label, v)]"
| "measured ev = []"

definition metrics :: "event list \<Rightarrow> (string \<times> fpart list) list" where
  "metrics evs = concat (map measured evs)"

fun tabled :: "event \<Rightarrow> styler list" where
  "tabled (c, Dataframe sty) = [sty]"
| "tabled ev = []"

definition tables :: "event list \<Rightarrow> styler list" where
  "tables evs = concat (map tabled evs)"

text \<open>The points of a chart: the cells of its x column against those of its y column.\<close>

definition points :: "figure \<Rightarrow> (cell \<times> cell) list" where
  "points fig =
     (case (map_of (columns (frame fig)) (x_column fig), map_of (columns (frame fig)) (y_column fig)) of
        (Some xs, Some ys) \<Rightarrow> zip xs ys
      | _ \<Rightarrow> [])"

section \<open>What the claims expect\<close>

text \<open>The twelve month-ends of 2024, written out.\<close>

definition month_ends_2024 :: "date list" where
  "month_ends_2024 =
    [\<lparr>year = 2024, month = 1, day = 31\<rparr>, \<lparr>year = 2024, month = 2, day = 29\<rparr>,
     \<lparr>year = 2024, month = 3, day = 31\<rparr>, \<lparr>year = 2024, month = 4, day = 30\<rparr>,
     \<lparr>year = 2024, month = 5, day = 31\<rparr>, \<lparr>year = 2024, month = 6, day = 30\<rparr>,
     \<lparr>year = 2024, month = 7, day = 31\<rparr>, \<lparr>year = 2024, month = 8, day = 31\<rparr>,
     \<lparr>year = 2024, month = 9, day = 30\<rparr>, \<lparr>year = 2024, month = 10, day = 31\<rparr>,
     \<lparr>year = 2024, month = 11, day = 30\<rparr>, \<lparr>year = 2024, month = 12, day = 31\<rparr>]"

text \<open>The frame of the demo page, from its three series.\<close>

definition demo_frame :: "real list \<Rightarrow> real list \<Rightarrow> real list \<Rightarrow> dataframe" where
  "demo_frame sales customers satisfaction =
     \<lparr>columns = [(''Date'', map D month_ends_2024), (''Sales'', map F sales),
                 (''Customers'', map F customers), (''Satisfaction'', map F satisfaction)],
      index = map (\<lambda>i. I (int i)) [0..<12]\<rparr>"

text \<open>
  A generator for examples: its state counts the variates taken; the \<open>n\<close>-th normal variate is
  \<open>n\<close>, the \<open>n\<close>-th variate of the unit interval is \<open>1 / (n + 2)\<close>.
\<close>

definition counting :: "nat np_random" where
  "counting = \<lparr>standard_normal = (\<lambda>n. (real n, Suc n)), random_sample = (\<lambda>n. (1 / real (n + 2), Suc n))\<rparr>"

text \<open>The frame and the figure of the Industry Applications page.\<close>

definition industry_frame :: dataframe where
  "industry_frame =
     \<lparr>columns = [(''Industry'', map S (keys industries)),
                 (''Popularity'', map (\<lambda>ind. I (popularity ind)) (dict_values industries))],
      index = map (\<lambda>i. I (int i)) [0..<4]\<rparr>"

definition industry_figure :: figure where
  "industry_figure =
     \<lparr>kind = Bar_chart, frame = industry_frame, x_column = ''Industry'', y_column = ''Popularity'',
      fig_title = ''Industry Adoption of SAS Analytics'',
      axis_labels = [(''Popularity'', ''Adoption Rate (%)'')], color_column = Some ''Industry''\<rparr>"

section \<open>Properties\<close>

lemma keys_sas_tools:
  "keys sas_tools = [''SAS Base'', ''SAS Enterprise Guide'', ''SAS Visual Analytics'', ''SAS Viya'']"
  by (simp add: keys_def sas_tools_def)

subsection \<open>The demo series\<close>

lemma date_range_2024:
  "date_range_M \<lparr>year = 2024, month = 1, day = 1\<rparr> \<lparr>year = 2024, month = 12, day = 31\<rparr> = month_ends_2024"
  by (simp add: date_range_M_def month_end_def days_in_month_def leap_year_def date_le_def
      month_ends_2024_def upt_rec)

lemma length_month_ends_2024: "length month_ends_2024 = 12"
  by (simp add: month_ends_2024_def)

lemma length_draws: "draws s n g = (vs, g') \<Longrightarrow> length vs = n"
proof (induction n arbitrary: g vs g')
  case 0
  then show ?case by simp
next
  case (Suc n)
  obtain v h where step: "s g = (v, h)" by (cases "s g")
  obtain ws h' where rest: "draws s n h = (ws, h')" by (cases "draws s n h")
  from Suc.prems step rest have "vs = v # ws" by simp
  moreover from Suc.IH rest have "length ws = n" .
  ultimately show ?case by simp
qed

lemma normal_eq: "draws (standard_normal R) n g = (zs, g') \<Longrightarrow>
    normal R loc scale n g = (map (\<lambda>z. loc + scale * z) zs, g')"
  by (simp add: normal_def)

lemma uniform_eq: "draws (random_sample R) n g = (us, g') \<Longrightarrow>
    uniform R low high n g = (map (\<lambda>u. low + (high - low) * u) us, g')"
  by (simp add: uniform_def)

lemma numeric_floats: "list_all numeric (map F xs)"
  by (induction xs) simp_all

lemma num_values_floats: "num_values (map F xs) = xs"
  by (induction xs) simp_all

lemma series_sum_floats: "series_sum (map F xs) = Inr (F (sum_list xs))"
  by (simp add: series_sum_def numeric_floats num_values_floats)

lemma series_mean_floats: "xs \<noteq> [] \<Longrightarrow> series_mean (map F xs) = Inr (F (sum_list xs / real (length xs)))"
  by (simp add: series_mean_def numeric_floats num_values_floats)

lemma sample_data_eq:
  assumes "draws (standard_normal R) 12 g = (zs, g1)"
    and "draws (standard_normal R) 12 g1 = (zs', g2)"
    and "draws (random_sample R) 12 g2 = (us, g3)"
  shows "sample_data R g =
     Inr (demo_frame (map (\<lambda>z. 1000 + 200 * z) zs) (map (\<lambda>z. 500 + 100 * z) zs')
            (map (\<lambda>u. 3.5 + (5 - 3.5) * u) us), g3)"
proof -
  have l: "length zs = 12" "length zs' = 12" "length us = 12"
    using assms by (auto dest: length_draws)
  have n: "normal R 1000 200 12 g = (map (\<lambda>z. 1000 + 200 * z) zs, g1)"
    "normal R 500 100 12 g1 = (map (\<lambda>z. 500 + 100 * z) zs', g2)"
    "uniform R 3.5 5 12 g2 = (map (\<lambda>u. 3.5 + (5 - 3.5) * u) us, g3)"
    using assms by (simp_all only: normal_eq uniform_eq)
  show ?thesis
    unfolding sample_data_def date_range_2024 Let_def length_month_ends_2024
    using n by (simp add: l pd_DataFrame_def and_then_def demo_frame_def length_month_ends_2024)
qed

lemma show_demo_analytics_eq:
  assumes "mc \<in> set metric_options"
    and "sample_data R g = Inr (demo_frame sales customers satisfaction, g')"
    and "sales \<noteq> []" "satisfaction \<noteq> []"
  shows "show_demo_analytics R mc g =
     Inr ([(Main_area, Header ''Demo Analytics Dashboard''),
           (Main_area, Selectbox ''Select metric to visualize:'' metric_options),
           (Main_area, Plotly_chart
              \<lparr>kind = Line_chart, frame = demo_frame sales customers satisfaction,
               x_column = ''Date'', y_column = mc, fig_title = mc @ '' Trend Analysis'',
               axis_labels = [], color_column = None\<rparr>),
           (Main_area, Subheader ''Summary Statistics''),
           (Main_area, Columns [1, 1, 1]),
           (In_column 0, Metric ''Average Sales''
              [Lit ''$'', Fmt (F (sum_list sales / real (length sales))) '',.0f'']),
           (In_column 1, Metric ''Total Customers'' [Fmt (F (sum_list customers)) '',.0f'']),
           (In_column 2, Metric ''Avg Satisfaction''
              [Fmt (F (sum_list satisfaction / real (length satisfaction))) ''.1f'', Lit ''/5.0''])],
          g')"
proof -
  have cols: "keys (columns (demo_frame sales customers satisfaction)) =
      [''Date'', ''Sales'', ''Customers'', ''Satisfaction'']"
    by (simp add: demo_frame_def keys_def)
  have fig: "px_figure Line_chart (demo_frame sales customers satisfaction) ''Date'' mc
        (mc @ '' Trend Analysis'') [] None =
      Inr \<lparr>kind = Line_chart, frame = demo_frame sales customers satisfaction,
               x_column = ''Date'', y_column = mc, fig_title = mc @ '' Trend Analysis'',
               axis_labels = [], color_column = None\<rparr>"
    using assms(1) by (auto simp add: px_figure_def cols metric_options_def)
  have g1: "getitem (columns (demo_frame sales customers satisfaction)) ''Sales'' = Inr (map F sales)"
    by (simp add: getitem_def demo_frame_def)
  have g2: "getitem (columns (demo_frame sales customers satisfaction)) ''Customers'' = Inr (map F customers)"
    by (simp add: getitem_def demo_frame_def)
  have g3: "getitem (columns (demo_frame sales customers satisfaction)) ''Satisfaction'' = Inr (map F satisfaction)"
    by (simp add: getitem_def demo_frame_def)
  show ?thesis
    unfolding show_demo_analytics_def
    by (simp add: assms(2-4) and_then_def fig g1 g2 g3 series_sum_floats series_mean_floats)
qed


text \<open>
  Claim C3. Whatever the generator and its state, the frame built by the Demo Analytics
  renderer has exactly 12 rows; its \<^verbatim>\<open>Date\<close> column holds the twelve month-ends of 2024, from
  2024-01-31 to 2024-12-31, and each of the three numeric columns has exactly 12 values. For
  each metric the user can choose, the renderer succeeds and charts this very frame.
\<close>

theorem demo_series_has_twelve_month_end_rows:
  "\<exists>data g' sales customers satisfaction.
     sample_data R g = Inr (data, g') \<and>
     length (index data) = 12 \<and>
     columns data = [(''Date'', map D month_ends_2024), (''Sales'', map F sales),
                     (''Customers'', map F customers), (''Satisfaction'', map F satisfaction)] \<and>
     length month_ends_2024 = 12 \<and> length sales = 12 \<and> length customers = 12 \<and>
     length satisfaction = 12 \<and>
     (\<forall>mc \<in> set metric_options. \<exists>evs. show_demo_analytics R mc g = Inr (evs, g') \<and>
        map frame (charts evs) = [data])"
proof -
  obtain zs g1 where d1: "draws (standard_normal R) 12 g = (zs, g1)"
    by (cases "draws (standard_normal R) 12 g")
  obtain zs' g2 where d2: "draws (standard_normal R) 12 g1 = (zs', g2)"
    by (cases "draws (standard_normal R) 12 g1")
  obtain us g3 where d3: "draws (random_sample R) 12 g2 = (us, g3)"
    by (cases "draws (random_sample R) 12 g2")
  let ?sales = "map (\<lambda>z. 1000 + 200 * z) zs"
  let ?customers = "map (\<lambda>z. 500 + 100 * z) zs'"
  let ?satisfaction = "map (\<lambda>u. 3.5 + (5 - 3.5) * u) us"
  have l: "length zs = 12" "length zs' = 12" "length us = 12"
    using d1 d2 d3 by (auto dest: length_draws)
  have s: "sample_data R g = Inr (demo_frame ?sales ?customers ?satisfaction, g3)"
    by (rule sample_data_eq [OF d1 d2 d3])
  have ne: "?sales \<noteq> []" "?satisfaction \<noteq> []"
    using l by auto
  have r: "\<forall>mc \<in> set metric_options. \<exists>evs. show_demo_analytics R mc g = Inr (evs, g3) \<and>
        map frame (charts evs) = [demo_frame ?sales ?customers ?satisfaction]"
  proof
    fix mc assume mc: "mc \<in> set metric_options"
    show "\<exists>evs. show_demo_analytics R mc g = Inr (evs, g3) \<and>
        map frame (charts evs) = [demo_frame ?sales ?customers ?satisfaction]"
      unfolding show_demo_analytics_eq [OF mc s ne]
      by (simp add: charts_def)
  qed
  have c: "columns (demo_frame ?sales ?customers ?satisfaction) =
      [(''Date'', map D month_ends_2024), (''Sales'', map F ?sales),
       (''Customers'', map F ?customers), (''Satisfaction'', map F ?satisfaction)]"
    by (simp add: demo_frame_def)
  have i: "length (index (demo_frame ?sales ?customers ?satisfaction)) = 12"
    by (simp add: demo_frame_def)
  have ls: "length ?sales = 12" "length ?customers = 12" "length ?satisfaction = 12"
    using l by simp_all
  from s i c ls r length_month_ends_2024 show ?thesis by blast
qed

theorem demo_series_has_twelve_month_end_rows_witness:
  "''Sales'' \<in> set metric_options \<and>
   (\<exists>data g' evs. sample_data counting 0 = Inr (data, g') \<and> length (index data) = 12 \<and>
      show_demo_analytics counting ''Sales'' 0 = Inr (evs, g') \<and> map frame (charts evs) = [data])"
proof -
  have m: "''Sales'' \<in> set metric_options" by (simp add: metric_options_def)
  from demo_series_has_twelve_month_end_rows [of counting 0] obtain data g'
    where s: "sample_data counting 0 = Inr (data, g')" and i: "length (index data) = 12"
      and r: "\<forall>mc \<in> set metric_options. \<exists>evs. show_demo_analytics counting mc 0 = Inr (evs, g') \<and>
        map frame (charts evs) = [data]"
    by (elim exE conjE) (rule that)
  from bspec [OF r m] obtain evs
    where e: "show_demo_analytics counting ''Sales'' 0 = Inr (evs, g')" "map frame (charts evs) = [data]"
    by (elim exE conjE) (rule that)
  from m s i e show ?thesis by (intro conjI exI)
qed

subsection \<open>Dictionaries\<close>

lemma getitem_key:
  assumes "k \<in> set (keys d)"
  shows "\<exists>v. getitem d k = Inr v \<and> (k, v) \<in> set d"
proof -
  from assms have "map_of d k \<noteq> None"
    by (simp add: keys_def map_of_eq_None_iff)
  then obtain v where v: "map_of d k = Some v" by blast
  then have "(k, v) \<in> set d" by (rule map_of_SomeD)
  with v show ?thesis by (simp add: getitem_def)
qed

lemma distinct_values_key:
  assumes "distinct (dict_values d)" and "(a, v) \<in> set d" and "(b, v) \<in> set d"
  shows "a = b"
proof -
  from assms(1) have "inj_on snd (set d)"
    by (simp add: dict_values_def distinct_map)
  from inj_onD [OF this _ assms(2,3)] show ?thesis by simp
qed

subsection \<open>Reading texts\<close>

lemma leading_writes_map [simp]:
  "leading_writes (map (\<lambda>x. (c, Write (f x))) xs @ rest) = map f xs @ leading_writes rest"
  by (induction xs) simp_all

lemma leading_writes_map_only [simp]:
  "leading_writes (map (\<lambda>x. (c, Write (f x))) xs) = map f xs"
  using leading_writes_map [of c f xs "[]"] by simp

lemma under_map [simp]:
  "under h (map (\<lambda>x. (c, Write (f x))) xs @ rest) = under h rest"
  by (induction xs) simp_all

lemma under_map_only [simp]:
  "under h (map (\<lambda>x. (c, Write (f x))) xs) = []"
  using under_map [of h c f xs "[]"] by simp

lemma all_writes_Cons [simp]: "all_writes (ev # evs) = written ev @ all_writes evs"
  by (simp add: all_writes_def)

lemma all_writes_Nil [simp]: "all_writes [] = []"
  by (simp add: all_writes_def)

lemma all_writes_append [simp]: "all_writes (xs @ ys) = all_writes xs @ all_writes ys"
  by (simp add: all_writes_def)

lemma all_writes_map [simp]: "all_writes (map (\<lambda>x. (c, Write (f x))) xs) = map f xs"
  by (induction xs) simp_all

subsection \<open>The Tool Explorer\<close>

lemma sas_tools_wellformed:
  "distinct (dict_values sas_tools)"
  "list_all (\<lambda>kt. fst kt \<noteq> [] \<and> description (snd kt) \<noteq> [] \<and> key_features (snd kt) \<noteq> [] \<and>
      use_cases (snd kt) \<noteq> []) sas_tools"
  by (simp_all add: dict_values_def sas_tools_def)

lemma show_tool_explorer_selected:
  assumes "getitem sas_tools name = Inr info" and "name \<noteq> []"
  shows "show_tool_explorer (Some name) =
     Inr ([(Main_area, Header ''SAS Tools Explorer''),
           (Main_area, Selectbox ''Select a SAS tool to explore:'' (keys sas_tools)),
           (Main_area, Columns [2, 1]),
           (In_column 0, Subheader (''About '' @ name)),
           (In_column 0, Write (description info)),
           (In_column 0, Subheader ''Key Features'')]
          @ map (\<lambda>feature. (In_column 0, Write (glyph_bullet @ '' '' @ feature))) (key_features info)
          @ [(In_column 1, Subheader ''Common Use Cases'')]
          @ map (\<lambda>use_case. (In_column 1, Write (glyph_pushpin @ '' '' @ use_case))) (use_cases info))"
  using assms by (simp add: show_tool_explorer_def and_then_def)

text \<open>
  Claim C2. For every tool name among the keys of \<open>sas_tools\<close>, the Tool Explorer renderer
  succeeds and writes that tool's description under the heading ``About'' with the name, that
  tool's features, in order, each after a bullet, under ``Key Features'', and that tool's use
  cases, in order, each after a pin, under ``Common Use Cases''. These are all the texts it
  writes, and the entry they come from is the entry of no other tool name.
\<close>

theorem tool_explorer_shows_selected_tool:
  assumes "name \<in> set (keys sas_tools)"
  shows "\<exists>info evs.
     getitem sas_tools name = Inr info \<and>
     show_tool_explorer (Some name) = Inr evs \<and>
     under (''About '' @ name) evs = [description info] \<and>
     under ''Key Features'' evs = map (\<lambda>feature. glyph_bullet @ '' '' @ feature) (key_features info) \<and>
     under ''Common Use Cases'' evs = map (\<lambda>use_case. glyph_pushpin @ '' '' @ use_case) (use_cases info) \<and>
     all_writes evs =
       description info
       # map (\<lambda>feature. glyph_bullet @ '' '' @ feature) (key_features info)
       @ map (\<lambda>use_case. glyph_pushpin @ '' '' @ use_case) (use_cases info) \<and>
     (\<forall>other \<in> set (keys sas_tools). other \<noteq> name \<longrightarrow> getitem sas_tools other \<noteq> Inr info)"
proof -
  from getitem_key [OF assms] obtain info
    where g: "getitem sas_tools name = Inr info" and m: "(name, info) \<in> set sas_tools"
    by blast
  from m sas_tools_wellformed(2) have ne: "name \<noteq> []"
    by (auto simp add: list_all_iff)
  let ?evs = "[(Main_area, Header ''SAS Tools Explorer''),
           (Main_area, Selectbox ''Select a SAS tool to explore:'' (keys sas_tools)),
           (Main_area, Columns [2, 1]),
           (In_column 0, Subheader (''About '' @ name)),
           (In_column 0, Write (description info)),
           (In_column 0, Subheader ''Key Features'')]
          @ map (\<lambda>feature. (In_column 0, Write (glyph_bullet @ '' '' @ feature))) (key_features info)
          @ [(In_column 1, Subheader ''Common Use Cases'')]
          @ map (\<lambda>use_case. (In_column 1, Write (glyph_pushpin @ '' '' @ use_case))) (use_cases info)"
  have s: "show_tool_explorer (Some name) = Inr ?evs"
    by (rule show_tool_explorer_selected [OF g ne])
  have u1: "under (''About '' @ name) ?evs = [description info]"
    by simp
  have u2: "under ''Key Features'' ?evs =
      map (\<lambda>feature. glyph_bullet @ '' '' @ feature) (key_features info)"
    by simp
  have u3: "under ''Common Use Cases'' ?evs =
      map (\<lambda>use_case. glyph_pushpin @ '' '' @ use_case) (use_cases info)"
    by simp
  have w: "all_writes ?evs =
       description info
       # map (\<lambda>feature. glyph_bullet @ '' '' @ feature) (key_features info)
       @ map (\<lambda>use_case. glyph_pushpin @ '' '' @ use_case) (use_cases info)"
    by simp
  have o: "\<forall>other \<in> set (keys sas_tools). other \<noteq> name \<longrightarrow> getitem sas_tools other \<noteq> Inr info"
  proof (intro ballI impI notI)
    fix other
    assume "other \<in> set (keys sas_tools)" and d: "other \<noteq> name"
      and e: "getitem sas_tools other = Inr info"
    from getitem_key [OF this(1)] e have "(other, info) \<in> set sas_tools" by auto
    from distinct_values_key [OF sas_tools_wellformed(1) this m] d show False by simp
  qed
  from g s u1 u2 u3 w o show ?thesis by blast
qed

theorem tool_explorer_shows_selected_tool_witness:
  "''SAS Viya'' \<in> set (keys sas_tools) \<and>
   (\<exists>info evs. getitem sas_tools ''SAS Viya'' = Inr info \<and>
      show_tool_explorer (Some ''SAS Viya'') = Inr evs \<and>
      under ''About SAS Viya'' evs = [description info] \<and>
      under ''Key Features'' evs = map (\<lambda>feature. glyph_bullet @ '' '' @ feature) (key_features info))"
proof -
  have k: "''SAS Viya'' \<in> set (keys sas_tools)"
    by (simp add: keys_def sas_tools_def)
  from tool_explorer_shows_selected_tool [OF k] k show ?thesis
    by fastforce
qed

text \<open>
  Claim C7. For every tool name among the four keys, the Tool Explorer renderer succeeds and
  shows a non-empty description, a non-empty list of key features and a non-empty list of
  use cases.
\<close>

theorem tool_explorer_sections_nonempty:
  assumes "name \<in> set (keys sas_tools)"
  shows "\<exists>evs d fs us.
     show_tool_explorer (Some name) = Inr evs \<and>
     under (''About '' @ name) evs = [d] \<and> d \<noteq> [] \<and>
     under ''Key Features'' evs = fs \<and> fs \<noteq> [] \<and>
     under ''Common Use Cases'' evs = us \<and> us \<noteq> []"
proof -
  from getitem_key [OF assms] obtain info
    where g: "getitem sas_tools name = Inr info" and m: "(name, info) \<in> set sas_tools"
    by blast
  from m sas_tools_wellformed(2)
  have ne: "name \<noteq> []" "description info \<noteq> []" "key_features info \<noteq> []" "use_cases info \<noteq> []"
    by (auto simp add: list_all_iff)
  show ?thesis
    unfolding show_tool_explorer_selected [OF g ne(1)]
    using ne by simp
qed

theorem tool_explorer_sections_nonempty_witness:
  "''SAS Base'' \<in> set (keys sas_tools) \<and>
   (\<exists>evs d fs us.
     show_tool_explorer (Some ''SAS Base'') = Inr evs \<and>
     under ''About SAS Base'' evs = [d] \<and> d \<noteq> [] \<and>
     under ''Key Features'' evs = fs \<and> fs \<noteq> [] \<and>
     under ''Common Use Cases'' evs = us \<and> us \<noteq> [])"
proof -
  have k: "''SAS Base'' \<in> set (keys sas_tools)"
    by (simp add: keys_def sas_tools_def)
  from tool_explorer_sections_nonempty [OF k] k show ?thesis
    by simp
qed

subsection \<open>The comparison matrix\<close>

lemma show_features_comparison_eq:
  "show_features_comparison =
     Inr [(Main_area, Header ''Features Comparison''),
          (Main_area, Dataframe (style_applymap
             (\<lambda>x. if truthy x then ''background-color: #90EE90'' else ''background-color: #FFB6C1'')
             \<lparr>columns = map (\<lambda>kc. (fst kc, map B (snd kc))) comparison_data,
              index = map S features\<rparr>))]"
  by (simp add: show_features_comparison_def pd_DataFrame_def and_then_def comparison_data_def
      features_def)

text \<open>
  Claim C4. The comparison data is a fixed matrix of 4 tools by 5 features: there are four
  entries, each maps its tool to a list of exactly 5 booleans, and that length is the length
  of the list of feature names. The frame is built without error and the table shown has
  these four columns of five cells, indexed by the feature names.
\<close>

theorem comparison_matrix_shape:
  "length comparison_data = 4 \<and> length features = 5 \<and>
   (\<forall>row \<in> set comparison_data. length (snd row) = 5 \<and> length (snd row) = length features) \<and>
   (\<exists>sty. tables (case show_features_comparison of Inl e \<Rightarrow> [] | Inr evs \<Rightarrow> evs) = [sty] \<and>
      show_features_comparison \<noteq> Inl ValueError \<and>
      index (styled sty) = map S features \<and>
      columns (styled sty) = map (\<lambda>kc. (fst kc, map B (snd kc))) comparison_data \<and>
      map (\<lambda>kc. length (snd kc)) (columns (styled sty)) = [5, 5, 5, 5])"
proof -
  have a: "length comparison_data = 4" "length features = 5"
    by (simp_all add: comparison_data_def features_def)
  have b: "\<forall>row \<in> set comparison_data. length (snd row) = 5 \<and> length (snd row) = length features"
    by (simp add: comparison_data_def features_def)
  have c: "tables (case show_features_comparison of Inl e \<Rightarrow> [] | Inr evs \<Rightarrow> evs) =
      [style_applymap
         (\<lambda>x. if truthy x then ''background-color: #90EE90'' else ''background-color: #FFB6C1'')
         \<lparr>columns = map (\<lambda>kc. (fst kc, map B (snd kc))) comparison_data, index = map S features\<rparr>]"
    by (simp add: show_features_comparison_eq tables_def)
  have d: "show_features_comparison \<noteq> Inl ValueError"
    by (simp add: show_features_comparison_eq)
  have e: "map (\<lambda>kc. length (snd kc)) (map (\<lambda>kc. (fst kc, map B (snd kc))) comparison_data) = [5, 5, 5, 5]"
    by (simp add: comparison_data_def)
  from a b c d e show ?thesis
    by (simp add: style_applymap_def)
qed

theorem comparison_matrix_shape_witness:
  "(''SAS Visual Analytics'', [True, True, False, True, True]) \<in> set comparison_data \<and>
   length [True, True, False, True, True] = length features"
proof -
  have m: "(''SAS Visual Analytics'', [True, True, False, True, True]) \<in> set comparison_data"
    by (simp add: comparison_data_def)
  from comparison_matrix_shape have
    "\<forall>row \<in> set comparison_data. length (snd row) = 5 \<and> length (snd row) = length features"
    by (elim conjE)
  from bspec [OF this m] m show ?thesis by simp
qed

text \<open>
  Claim C9. The tool names that are the columns of the comparison matrix are exactly the keys
  of the tool dictionary of the Tool Explorer: the same four names, spelled alike and in the
  same order, so the two sets of names are equal.
\<close>

theorem comparison_columns_are_the_tools:
  "set (keys comparison_data) = set (keys sas_tools) \<and>
   keys comparison_data = keys sas_tools \<and>
   distinct (keys sas_tools) \<and> length (keys sas_tools) = 4 \<and>
   (\<exists>sty. tables (case show_features_comparison of Inl e \<Rightarrow> [] | Inr evs \<Rightarrow> evs) = [sty] \<and>
      keys (columns (styled sty)) = keys sas_tools)"
proof -
  have k: "keys comparison_data = keys sas_tools"
    by (simp add: keys_def comparison_data_def sas_tools_def)
  have d: "distinct (keys sas_tools)" "length (keys sas_tools) = 4"
    by (simp_all add: keys_def sas_tools_def)
  have c: "tables (case show_features_comparison of Inl e \<Rightarrow> [] | Inr evs \<Rightarrow> evs) =
      [style_applymap
         (\<lambda>x. if truthy x then ''background-color: #90EE90'' else ''background-color: #FFB6C1'')
         \<lparr>columns = map (\<lambda>kc. (fst kc, map B (snd kc))) comparison_data, index = map S features\<rparr>]"
    by (simp add: show_features_comparison_eq tables_def)
  have e: "keys (map (\<lambda>kc. (fst kc, map B (snd kc))) comparison_data) = keys comparison_data"
    by (simp add: keys_def comp_def)
  from k d c e show ?thesis
    by (simp add: style_applymap_def)
qed

subsection \<open>Industries\<close>

lemma keys_industries:
  "keys industries = [''Business Intelligence'', ''Risk Management'', ''Environmental Analytics'',
     ''Social Media Analytics'']"
  by (simp add: keys_def industries_def)

lemma popularities:
  "map popularity (dict_values industries) = [85, 75, 60, 70]"
  by (simp add: dict_values_def industries_def)

lemma show_industry_applications_eq:
  "show_industry_applications =
     Inr ([(Main_area, Header ''Industry Applications''), (Main_area, Plotly_chart industry_figure)]
          @ concat (map show_details industries))"
proof -
  have l: "length (dict_values industries) = 4" "length (keys industries) = 4"
    by (simp_all add: dict_values_def keys_def industries_def)
  have f: "pd_DataFrame [(''Industry'', map S (keys industries)),
                 (''Popularity'', map (\<lambda>ind. I (popularity ind)) (dict_values industries))] None
      = Inr industry_frame"
    by (simp add: pd_DataFrame_def industry_frame_def l)
  have p: "px_figure Bar_chart industry_frame ''Industry'' ''Popularity''
                 ''Industry Adoption of SAS Analytics''
                 [(''Popularity'', ''Adoption Rate (%)'')] (Some ''Industry'') = Inr industry_figure"
    by (simp add: px_figure_def industry_figure_def industry_frame_def keys_def)
  show ?thesis
    by (simp add: show_industry_applications_def f p and_then_def)
qed

lemma charted_show_details: "concat (map charted (show_details item)) = []"
  by (simp add: show_details_def comp_def)

lemma charts_details: "charts (concat (map show_details items)) = []"
  by (induction items) (simp_all add: charts_def charted_show_details)

lemma charts_industry_page:
  "charts ([(Main_area, Header ''Industry Applications''), (Main_area, Plotly_chart industry_figure)]
          @ concat (map show_details industries)) = [industry_figure]"
  using charts_details [of industries] by (simp add: charts_def)

lemma points_industry_figure:
  "points industry_figure =
     [(S ''Business Intelligence'', I 85), (S ''Risk Management'', I 75),
      (S ''Environmental Analytics'', I 60), (S ''Social Media Analytics'', I 70)]"
  by (simp add: points_def industry_figure_def industry_frame_def keys_def dict_values_def
      industries_def)

text \<open>
  Claim C5. The Industry Applications renderer charts exactly four fixed pairs of an industry
  and its popularity, one bar chart with the industries on the x axis and the popularities on
  the y axis, and every popularity lies between 0 and 100, both included.
\<close>

theorem industry_chart_pairs:
  "\<exists>evs fig.
     show_industry_applications = Inr evs \<and> charts evs = [fig] \<and> kind fig = Bar_chart \<and>
     x_column fig = ''Industry'' \<and> y_column fig = ''Popularity'' \<and>
     points fig =
       [(S ''Business Intelligence'', I 85), (S ''Risk Management'', I 75),
        (S ''Environmental Analytics'', I 60), (S ''Social Media Analytics'', I 70)] \<and>
     length (points fig) = 4 \<and>
     points fig = map (\<lambda>item. (S (fst item), I (popularity (snd item)))) industries \<and>
     (\<forall>item \<in> set industries. 0 \<le> popularity (snd item) \<and> popularity (snd item) \<le> 100)"
proof -
  have r: "\<forall>item \<in> set industries. 0 \<le> popularity (snd item) \<and> popularity (snd item) \<le> 100"
    by (simp add: industries_def)
  have m: "points industry_figure = map (\<lambda>item. (S (fst item), I (popularity (snd item)))) industries"
    unfolding points_industry_figure by (simp add: industries_def)
  have k: "kind industry_figure = Bar_chart" "x_column industry_figure = ''Industry''"
    "y_column industry_figure = ''Popularity''"
    by (simp_all add: industry_figure_def)
  have l: "length (points industry_figure) = 4"
    unfolding points_industry_figure by simp
  from show_industry_applications_eq charts_industry_page k points_industry_figure l m r
  show ?thesis by blast
qed

theorem industry_chart_pairs_witness:
  "(''Environmental Analytics'',
      \<lparr>icon = glyph_globe,
       applications = [''Deforestation Monitoring'', ''Climate Analysis'', ''Resource Management''],
       popularity = 60\<rparr>) \<in> set industries \<and> (0::int) \<le> 60 \<and> (60::int) \<le> 100"
proof -
  let ?item = "(''Environmental Analytics'',
      \<lparr>icon = glyph_globe,
       applications = [''Deforestation Monitoring'', ''Climate Analysis'', ''Resource Management''],
       popularity = 60\<rparr>)"
  have m: "?item \<in> set industries"
    by (simp add: industries_def)
  from industry_chart_pairs have
    "\<forall>item \<in> set industries. 0 \<le> popularity (snd item) \<and> popularity (snd item) \<le> 100"
    by (elim exE conjE)
  from bspec [OF this m] m show ?thesis by simp
qed

subsection \<open>The Overview and the industries\<close>

lemmas glyph_defs = glyph_briefcase_def glyph_warning_def glyph_globe_def glyph_phone_def
  glyph_hospital_def

text \<open>
  Claim C10. The Overview page lists five industries, the Industry Applications page defines
  four. The four, each shown by the Industry Applications page under its icon and name, are
  the first four labels of the Overview, so a strict subset of them; the fifth label of the
  Overview, Healthcare Analytics, is no key of the industries, has no applications, no
  expander and no point in the popularity chart.
\<close>

theorem overview_names_an_industry_without_a_page:
  "length overview_industries = 5 \<and> length industries = 4 \<and>
   keys industries = [''Business Intelligence'', ''Risk Management'', ''Environmental Analytics'',
     ''Social Media Analytics''] \<and>
   map expander_label industries = butlast overview_industries \<and>
   set (map expander_label industries) \<subset> set overview_industries \<and>
   last overview_industries = glyph_hospital @ '' Healthcare Analytics'' \<and>
   glyph_hospital @ '' Healthcare Analytics'' \<notin> set (map expander_label industries) \<and>
   ''Healthcare Analytics'' \<notin> set (keys industries) \<and>
   getitem industries ''Healthcare Analytics'' = Inl KeyError \<and>
   (\<exists>evs fig. show_industry_applications = Inr evs \<and> charts evs = [fig] \<and>
      S ''Healthcare Analytics'' \<notin> set (map fst (points fig)) \<and>
      (Main_area, Expander (glyph_hospital @ '' Healthcare Analytics'')) \<notin> set evs) \<and>
   (In_column 1, Write (glyph_hospital @ '' Healthcare Analytics'')) \<in> set show_overview"
proof -
  have a: "length overview_industries = 5" "length industries = 4"
    by (simp_all add: overview_industries_def industries_def)
  have b: "map expander_label industries = butlast overview_industries"
    by (simp add: expander_label_def industries_def overview_industries_def)
  have c: "last overview_industries = glyph_hospital @ '' Healthcare Analytics''"
    by (simp add: overview_industries_def)
  have d: "glyph_hospital @ '' Healthcare Analytics'' \<notin> set (map expander_label industries)"
    by (simp add: expander_label_def industries_def glyph_defs)
  have e: "set (map expander_label industries) \<subset> set overview_industries"
  proof (rule psubsetI)
    show "set (map expander_label industries) \<subseteq> set overview_industries"
      unfolding b by (simp add: overview_industries_def)
    have "glyph_hospital @ '' Healthcare Analytics'' \<in> set overview_industries"
      by (simp add: overview_industries_def)
    with d show "set (map expander_label industries) \<noteq> set overview_industries"
      by blast
  qed
  have f: "''Healthcare Analytics'' \<notin> set (keys industries)"
    by (simp add: keys_industries)
  have g: "getitem industries ''Healthcare Analytics'' = Inl KeyError"
    by (simp add: getitem_def industries_def)
  have h: "S ''Healthcare Analytics'' \<notin> set (map fst (points industry_figure))"
    by (simp add: points_industry_figure)
  have i: "(Main_area, Expander (glyph_hospital @ '' Healthcare Analytics'')) \<notin>
      set ([(Main_area, Header ''Industry Applications''), (Main_area, Plotly_chart industry_figure)]
          @ concat (map show_details industries))"
    by (simp add: show_details_def industries_def expander_label_def glyph_defs)
  have j: "(In_column 1, Write (glyph_hospital @ '' Healthcare Analytics'')) \<in> set show_overview"
    by (simp add: show_overview_def overview_industries_def)
  have k: "\<exists>evs fig. show_industry_applications = Inr evs \<and> charts evs = [fig] \<and>
      S ''Healthcare Analytics'' \<notin> set (map fst (points fig)) \<and>
      (Main_area, Expander (glyph_hospital @ '' Healthcare Analytics'')) \<notin> set evs"
    using show_industry_applications_eq charts_industry_page h i by blast
  from a keys_industries b e c d f g k j show ?thesis
    by (intro conjI)
qed

subsection \<open>Runs of the demo page\<close>

lemma demo_run:
  assumes "mc \<in> set metric_options"
    and "draws (standard_normal R) 12 g = (zs, g1)"
    and "draws (standard_normal R) 12 g1 = (zs', g2)"
    and "draws (random_sample R) 12 g2 = (us, g3)"
  shows "\<exists>evs. show_demo_analytics R mc g = Inr (evs, g3) \<and>
     charts evs =
       [\<lparr>kind = Line_chart,
         frame = demo_frame (map (\<lambda>z. 1000 + 200 * z) zs) (map (\<lambda>z. 500 + 100 * z) zs')
                   (map (\<lambda>u. 3.5 + (5 - 3.5) * u) us),
         x_column = ''Date'', y_column = mc, fig_title = mc @ '' Trend Analysis'',
         axis_labels = [], color_column = None\<rparr>] \<and>
     metrics evs =
       [(''Average Sales'', [Lit ''$'', Fmt (F (sum_list (map (\<lambda>z. 1000 + 200 * z) zs) / 12)) '',.0f'']),
        (''Total Customers'', [Fmt (F (sum_list (map (\<lambda>z. 500 + 100 * z) zs'))) '',.0f'']),
        (''Avg Satisfaction'',
           [Fmt (F (sum_list (map (\<lambda>u. 3.5 + (5 - 3.5) * u) us) / 12)) ''.1f'', Lit ''/5.0''])]"
proof -
  let ?sales = "map (\<lambda>z. 1000 + 200 * z) zs"
  let ?customers = "map (\<lambda>z. 500 + 100 * z) zs'"
  let ?satisfaction = "map (\<lambda>u. 3.5 + (5 - 3.5) * u) us"
  have l: "length zs = 12" "length zs' = 12" "length us = 12"
    using assms(2-4) by (auto dest: length_draws)
  have s: "sample_data R g = Inr (demo_frame ?sales ?customers ?satisfaction, g3)"
    by (rule sample_data_eq [OF assms(2-4)])
  have ne: "?sales \<noteq> []" "?satisfaction \<noteq> []"
    using l by auto
  show ?thesis
    unfolding show_demo_analytics_eq [OF assms(1) s ne]
    by (simp add: charts_def metrics_def l)
qed

lemma show_demo_analytics_ok:
  assumes "mc \<in> set metric_options"
  shows "\<exists>evs g'. show_demo_analytics R mc g = Inr (evs, g')"
proof -
  obtain zs g1 where d1: "draws (standard_normal R) 12 g = (zs, g1)"
    by (cases "draws (standard_normal R) 12 g")
  obtain zs' g2 where d2: "draws (standard_normal R) 12 g1 = (zs', g2)"
    by (cases "draws (standard_normal R) 12 g1")
  obtain us g3 where d3: "draws (random_sample R) 12 g2 = (us, g3)"
    by (cases "draws (random_sample R) 12 g2")
  from demo_run [OF assms d1 d2 d3] show ?thesis by blast
qed

lemma demo_frame_shape:
  "length (index (demo_frame a b c)) = 12"
  "index (demo_frame a b c) = map (\<lambda>i. I (int i)) [0..<12]"
  "getitem (columns (demo_frame a b c)) ''Date'' = Inr (map D month_ends_2024)"
  "getitem (columns (demo_frame a b c)) ''Sales'' = Inr (map F a)"
  by (simp_all add: demo_frame_def getitem_def)

lemma draws_counting_normal:
  "draws (standard_normal counting) n g = (map real [g..<g + n], g + n)"
  by (induction n arbitrary: g) (simp_all add: counting_def upt_conv_Cons)

lemma draws_counting_sample:
  "draws (random_sample counting) n g = (map (\<lambda>k. 1 / real (k + 2)) [g..<g + n], g + n)"
  by (induction n arbitrary: g) (simp_all add: counting_def upt_conv_Cons)

text \<open>
  Claim C8. There is a generator and a state from which two successive runs of the Demo
  Analytics renderer, the second starting where the first left the generator, chart frames
  whose Sales columns differ. In every pair of runs, whatever the generators, their states
  and the metrics chosen, both frames have 12 rows, the same index, and the twelve month-ends
  of 2024 as their dates.
\<close>

theorem demo_reruns_resample_same_shape:
  assumes "mc \<in> set metric_options" and "mc' \<in> set metric_options"
  shows "(\<exists>(G :: nat np_random) s evs s' evs' s'' d d'.
            show_demo_analytics G mc s = Inr (evs, s') \<and>
            show_demo_analytics G mc s' = Inr (evs', s'') \<and>
            map frame (charts evs) = [d] \<and> map frame (charts evs') = [d'] \<and>
            getitem (columns d) ''Sales'' \<noteq> getitem (columns d') ''Sales'') \<and>
         (\<exists>evs g' evs' h' d d'.
            show_demo_analytics R mc g = Inr (evs, g') \<and>
            show_demo_analytics R' mc' h = Inr (evs', h') \<and>
            map frame (charts evs) = [d] \<and> map frame (charts evs') = [d'] \<and>
            length (index d) = 12 \<and> length (index d') = 12 \<and> index d = index d' \<and>
            getitem (columns d) ''Date'' = Inr (map D month_ends_2024) \<and>
            getitem (columns d') ''Date'' = Inr (map D month_ends_2024))"
proof -
  have differ: "\<exists>(G :: nat np_random) s evs s' evs' s'' d d'.
            show_demo_analytics G mc s = Inr (evs, s') \<and>
            show_demo_analytics G mc s' = Inr (evs', s'') \<and>
            map frame (charts evs) = [d] \<and> map frame (charts evs') = [d'] \<and>
            getitem (columns d) ''Sales'' \<noteq> getitem (columns d') ''Sales''"
  proof -
    let ?d = "demo_frame (map (\<lambda>z. 1000 + 200 * z) (map real [0..<0 + 12]))
                   (map (\<lambda>z. 500 + 100 * z) (map real [0 + 12..<0 + 12 + 12]))
                   (map (\<lambda>u. 3.5 + (5 - 3.5) * u)
                      (map (\<lambda>k. 1 / real (k + 2)) [0 + 12 + 12..<0 + 12 + 12 + 12]))"
    let ?d' = "demo_frame (map (\<lambda>z. 1000 + 200 * z) (map real [36..<36 + 12]))
                   (map (\<lambda>z. 500 + 100 * z) (map real [36 + 12..<36 + 12 + 12]))
                   (map (\<lambda>u. 3.5 + (5 - 3.5) * u)
                      (map (\<lambda>k. 1 / real (k + 2)) [36 + 12 + 12..<36 + 12 + 12 + 12]))"
    from demo_run [OF assms(1) draws_counting_normal draws_counting_normal draws_counting_sample,
        of 0]
    obtain evs where r1: "show_demo_analytics counting mc 0 = Inr (evs, 36)"
      and c1: "map frame (charts evs) = [?d]"
      by auto
    from demo_run [OF assms(1) draws_counting_normal draws_counting_normal draws_counting_sample,
        of 36]
    obtain evs' where r2: "show_demo_analytics counting mc 36 = Inr (evs', 72)"
      and c2: "map frame (charts evs') = [?d']"
      by auto
    have ne: "getitem (columns ?d) ''Sales'' \<noteq> getitem (columns ?d') ''Sales''"
      by (simp add: demo_frame_shape upt_rec)
    from r1 r2 c1 c2 ne show ?thesis
      by (intro exI conjI)
  qed
  obtain zs g1 where d1: "draws (standard_normal R) 12 g = (zs, g1)"
    by (cases "draws (standard_normal R) 12 g")
  obtain zs' g2 where d2: "draws (standard_normal R) 12 g1 = (zs', g2)"
    by (cases "draws (standard_normal R) 12 g1")
  obtain us g3 where d3: "draws (random_sample R) 12 g2 = (us, g3)"
    by (cases "draws (random_sample R) 12 g2")
  obtain ys h1 where e1: "draws (standard_normal R') 12 h = (ys, h1)"
    by (cases "draws (standard_normal R') 12 h")
  obtain ys' h2 where e2: "draws (standard_normal R') 12 h1 = (ys', h2)"
    by (cases "draws (standard_normal R') 12 h1")
  obtain vs h3 where e3: "draws (random_sample R') 12 h2 = (vs, h3)"
    by (cases "draws (random_sample R') 12 h2")
  let ?d = "demo_frame (map (\<lambda>z. 1000 + 200 * z) zs) (map (\<lambda>z. 500 + 100 * z) zs')
                   (map (\<lambda>u. 3.5 + (5 - 3.5) * u) us)"
  let ?d' = "demo_frame (map (\<lambda>z. 1000 + 200 * z) ys) (map (\<lambda>z. 500 + 100 * z) ys')
                   (map (\<lambda>u. 3.5 + (5 - 3.5) * u) vs)"
  from demo_run [OF assms(1) d1 d2 d3] obtain evs
    where r1: "show_demo_analytics R mc g = Inr (evs, g3)"
      and c1: "map frame (charts evs) = [?d]"
    by auto
  from demo_run [OF assms(2) e1 e2 e3] obtain evs'
    where r2: "show_demo_analytics R' mc' h = Inr (evs', h3)"
      and c2: "map frame (charts evs') = [?d']"
    by auto
  have l: "length (index ?d) = 12" "length (index ?d') = 12"
    by (rule demo_frame_shape(1))+
  have ix: "index ?d = index ?d'"
    by (simp only: demo_frame_shape(2))
  have dt: "getitem (columns ?d) ''Date'' = Inr (map D month_ends_2024)"
    "getitem (columns ?d') ''Date'' = Inr (map D month_ends_2024)"
    by (rule demo_frame_shape(3))+
  from r1 r2 c1 c2 l ix dt
  have same: "\<exists>evs g' evs' h' d d'.
            show_demo_analytics R mc g = Inr (evs, g') \<and>
            show_demo_analytics R' mc' h = Inr (evs', h') \<and>
            map frame (charts evs) = [d] \<and> map frame (charts evs') = [d'] \<and>
            length (index d) = 12 \<and> length (index d') = 12 \<and> index d = index d' \<and>
            getitem (columns d) ''Date'' = Inr (map D month_ends_2024) \<and>
            getitem (columns d') ''Date'' = Inr (map D month_ends_2024)"
    by (intro exI conjI)
  from differ same show ?thesis by (rule conjI)
qed

theorem demo_reruns_resample_same_shape_witness:
  "''Sales'' \<in> set metric_options \<and> ''Customers'' \<in> set metric_options \<and>
   (\<exists>evs g' evs' h' d d'.
      show_demo_analytics counting ''Sales'' 0 = Inr (evs, g') \<and>
      show_demo_analytics counting ''Customers'' 36 = Inr (evs', h') \<and>
      map frame (charts evs) = [d] \<and> map frame (charts evs') = [d'] \<and>
      length (index d) = 12 \<and> index d = index d')"
proof -
  have k: "''Sales'' \<in> set metric_options" "''Customers'' \<in> set metric_options"
    by (simp_all add: metric_options_def)
  from demo_reruns_resample_same_shape [OF k, of counting 0 counting 36]
  have "\<exists>evs g' evs' h' d d'.
      show_demo_analytics counting ''Sales'' 0 = Inr (evs, g') \<and>
      show_demo_analytics counting ''Customers'' 36 = Inr (evs', h') \<and>
      map frame (charts evs) = [d] \<and> map frame (charts evs') = [d'] \<and>
      length (index d) = 12 \<and> length (index d') = 12 \<and> index d = index d' \<and>
      getitem (columns d) ''Date'' = Inr (map D month_ends_2024) \<and>
      getitem (columns d') ''Date'' = Inr (map D month_ends_2024)"
    by (rule conjunct2)
  then obtain evs g' evs' h' d d'
    where "show_demo_analytics counting ''Sales'' 0 = Inr (evs, g')"
      and "show_demo_analytics counting ''Customers'' 36 = Inr (evs', h')"
      and "map frame (charts evs) = [d]" and "map frame (charts evs') = [d']"
      and "length (index d) = 12" and "index d = index d'"
    by (elim exE conjE) (rule that)
  with k show ?thesis
    by (intro exI conjI)
qed

subsection \<open>main\<close>

lemma show_tool_explorer_ok:
  assumes "sel \<in> Some ` set (keys sas_tools)"
  shows "\<exists>evs. show_tool_explorer sel = Inr evs"
proof -
  from assms obtain name where n: "sel = Some name" "name \<in> set (keys sas_tools)" by blast
  from getitem_key [OF n(2)] obtain info
    where g: "getitem sas_tools name = Inr info" and m: "(name, info) \<in> set sas_tools"
    by blast
  from m sas_tools_wellformed(2) have ne: "name \<noteq> []"
    by (auto simp add: list_all_iff)
  from show_tool_explorer_selected [OF g ne] n(1) show ?thesis by blast
qed

text \<open>
  Claim C1. The navigation offers exactly the five page identifiers. Whatever the controls of
  the pages hold (a tool among the keys, a metric among the three), for each of the five
  identifiers \<^verbatim>\<open>main\<close> succeeds and calls exactly one renderer, the one of that page, once:
  the page shown is the navigation followed by what that renderer writes. No identifier
  falls through.
\<close>

theorem main_calls_the_chosen_renderer_once:
  assumes "selected_tool inp \<in> Some ` set (keys sas_tools)"
    and "metric_choice inp \<in> set metric_options"
  shows "nav_options = [''Overview'', ''Tool Explorer'', ''Features Comparison'',
                        ''Industry Applications'', ''Demo Analytics''] \<and>
     (Sidebar, Radio ''Choose a section:'' nav_options) \<in> set navigation \<and>
     map (\<lambda>p. map_sum id calls (main R (inp\<lparr>page := p\<rparr>) g)) nav_options =
       [Inr [Show_overview], Inr [Show_tool_explorer], Inr [Show_features_comparison],
        Inr [Show_industry_applications], Inr [Show_demo_analytics]] \<and>
     map (\<lambda>p. map_sum id events (main R (inp\<lparr>page := p\<rparr>) g)) nav_options =
       [Inr (navigation @ show_overview),
        map_sum id (\<lambda>evs. navigation @ evs) (show_tool_explorer (selected_tool inp)),
        map_sum id (\<lambda>evs. navigation @ evs) show_features_comparison,
        map_sum id (\<lambda>evs. navigation @ evs) show_industry_applications,
        map_sum id (\<lambda>r. navigation @ fst r) (show_demo_analytics R (metric_choice inp) g)] \<and>
     (\<forall>p \<in> set nav_options. \<exists>r. main R (inp\<lparr>page := p\<rparr>) g = Inr r \<and> length (calls r) = 1)"
proof -
  from show_tool_explorer_ok [OF assms(1)] obtain te
    where te: "show_tool_explorer (selected_tool inp) = Inr te" by blast
  from show_demo_analytics_ok [OF assms(2), of R g] obtain de g'
    where de: "show_demo_analytics R (metric_choice inp) g = Inr (de, g')" by blast
  have m1: "main R (inp\<lparr>page := ''Overview''\<rparr>) g =
      Inr \<lparr>calls = [Show_overview], events = navigation @ show_overview, rng_state = g\<rparr>"
    by (simp add: main_def)
  have m2: "main R (inp\<lparr>page := ''Tool Explorer''\<rparr>) g =
      Inr \<lparr>calls = [Show_tool_explorer], events = navigation @ te, rng_state = g\<rparr>"
    by (simp add: main_def te and_then_def)
  have m3: "main R (inp\<lparr>page := ''Features Comparison''\<rparr>) g =
      Inr \<lparr>calls = [Show_features_comparison],
           events = navigation @ [(Main_area, Header ''Features Comparison''),
          (Main_area, Dataframe (style_applymap
             (\<lambda>x. if truthy x then ''background-color: #90EE90'' else ''background-color: #FFB6C1'')
             \<lparr>columns = map (\<lambda>kc. (fst kc, map B (snd kc))) comparison_data,
              index = map S features\<rparr>))], rng_state = g\<rparr>"
    by (simp add: main_def show_features_comparison_eq and_then_def)
  have m4: "main R (inp\<lparr>page := ''Industry Applications''\<rparr>) g =
      Inr \<lparr>calls = [Show_industry_applications],
           events = navigation @ ([(Main_area, Header ''Industry Applications''),
              (Main_area, Plotly_chart industry_figure)] @ concat (map show_details industries)),
           rng_state = g\<rparr>"
    by (simp add: main_def show_industry_applications_eq and_then_def)
  have m5: "main R (inp\<lparr>page := ''Demo Analytics''\<rparr>) g =
      Inr \<lparr>calls = [Show_demo_analytics], events = navigation @ de, rng_state = g'\<rparr>"
    by (simp add: main_def de and_then_def)
  have n: "nav_options = [''Overview'', ''Tool Explorer'', ''Features Comparison'',
                        ''Industry Applications'', ''Demo Analytics'']"
    by (simp add: nav_options_def)
  have r: "(Sidebar, Radio ''Choose a section:'' nav_options) \<in> set navigation"
    by (simp add: navigation_def)
  have c: "map (\<lambda>p. map_sum id calls (main R (inp\<lparr>page := p\<rparr>) g)) nav_options =
       [Inr [Show_overview], Inr [Show_tool_explorer], Inr [Show_features_comparison],
        Inr [Show_industry_applications], Inr [Show_demo_analytics]]"
    unfolding n by (simp add: m1 m2 m3 m4 m5)
  have e: "map (\<lambda>p. map_sum id events (main R (inp\<lparr>page := p\<rparr>) g)) nav_options =
       [Inr (navigation @ show_overview),
        map_sum id (\<lambda>evs. navigation @ evs) (show_tool_explorer (selected_tool inp)),
        map_sum id (\<lambda>evs. navigation @ evs) show_features_comparison,
        map_sum id (\<lambda>evs. navigation @ evs) show_industry_applications,
        map_sum id (\<lambda>r. navigation @ fst r) (show_demo_analytics R (metric_choice inp) g)]"
    unfolding n by (simp add: m1 m2 m3 m4 m5 te de show_features_comparison_eq
        show_industry_applications_eq)
  have a: "\<forall>p \<in> set nav_options. \<exists>r. main R (inp\<lparr>page := p\<rparr>) g = Inr r \<and> length (calls r) = 1"
    unfolding n by (simp add: m1 m2 m3 m4 m5)
  from n r c e a show ?thesis by (intro conjI)
qed

theorem main_calls_the_chosen_renderer_once_witness:
  "Some ''SAS Base'' \<in> Some ` set (keys sas_tools) \<and> ''Sales'' \<in> set metric_options \<and>
   ''Demo Analytics'' \<in> set nav_options \<and>
   map (\<lambda>p. map_sum id calls
         (main counting (\<lparr>page = ''Overview'', selected_tool = Some ''SAS Base'',
                          metric_choice = ''Sales''\<rparr>\<lparr>page := p\<rparr>) 0)) nav_options =
       [Inr [Show_overview], Inr [Show_tool_explorer], Inr [Show_features_comparison],
        Inr [Show_industry_applications], Inr [Show_demo_analytics]]"
proof -
  let ?inp = "\<lparr>page = ''Overview'', selected_tool = Some ''SAS Base'', metric_choice = ''Sales''\<rparr>"
  have s: "selected_tool ?inp \<in> Some ` set (keys sas_tools)"
    by (simp add: keys_sas_tools)
  have m: "metric_choice ?inp \<in> set metric_options"
    by (simp add: metric_options_def)
  have p: "''Demo Analytics'' \<in> set nav_options"
    by (simp add: nav_options_def)
  from main_calls_the_chosen_renderer_once [OF s m, of counting 0] s m p show ?thesis
    by simp
qed

end
